theory Spec2Isabelle
  imports Main
begin

section \<open>The configuration literal of \<^verbatim>\<open>nuxt.config.ts\<close>\<close>

text \<open>
  The repository's only source file is
  \<^verbatim>\<open>export default defineNuxtConfig({ ... })\<close>:
  one object literal handed to a function of the host framework. The file defines no
  function of its own, so the embedding is the literal itself, as data, together with
  the property reads of JavaScript that are needed to speak about its fields.
\<close>

subsection \<open>JavaScript literal values\<close>

text \<open>
  The literal uses booleans, one number, strings, arrays and nested objects. An object
  literal is kept as the list of its \<open>key: value\<close> entries in the order they are
  written, an array as the list of its elements. The one number of the file
  (\<^verbatim>\<open>2500\<close>) is an integer literal.
\<close>

datatype js =
    JBool bool
  | JNum int
  | JStr string
  | JArr "js list"
  | JObj "(string \<times> js) list"

text \<open>
  \<^verbatim>\<open>o.k\<close> for a key of an object literal: the value of the entry \<open>k\<close>, the last
  one written when a key is repeated, and \<^verbatim>\<open>undefined\<close> (here \<open>None\<close>) when the
  literal has no such entry. The values that are not objects carry no entries.
\<close>

fun get :: "js \<Rightarrow> string \<Rightarrow> js option" where
  "get (JObj kvs) k = map_of (rev kvs) k"
| "get (JBool b) k = None"
| "get (JNum n) k = None"
| "get (JStr s) k = None"
| "get (JArr xs) k = None"

text \<open>
  \<^verbatim>\<open>o.k1.k2...kn\<close> with optional chaining: \<open>None\<close> as soon as one step is
  \<^verbatim>\<open>undefined\<close>.
\<close>

fun get_path :: "js \<Rightarrow> string list \<Rightarrow> js option" where
  "get_path v [] = Some v"
| "get_path v (k # ks) = (case get v k of None \<Rightarrow> None | Some w \<Rightarrow> get_path w ks)"

text \<open>The keys of an object literal, in the order they are written.\<close>

fun keys :: "js \<Rightarrow> string list" where
  "keys (JObj kvs) = map fst kvs"
| "keys (JBool b) = []"
| "keys (JNum n) = []"
| "keys (JStr s) = []"
| "keys (JArr xs) = []"

subsection \<open>The literal\<close>

text \<open>
  \<^verbatim>\<open>
  {
      telemetry: false,
      devtools: { enabled: true },
      ssr: false,
      pages: true,
      components: true,
      srcDir: 'src-nuxt/',
      css: ['~/assets/sass/global.sass'],
      modules: ['nuxt-quasar-ui'],
      quasar: {
          iconSet: 'mdi-v5',
          plugins: ['Notify', 'Dialog'],
          config: {
              dark: 'auto',
              notify: {
                  timeout: 2500,
                  position: 'top-right',
                  actions: [{ icon: 'mdi-close', color: 'white' }],
              },
          },
      },
  }
  \<close>
\<close>

definition notify :: js where
  "notify = JObj
     [(''timeout'', JNum 2500),
      (''position'', JStr ''top-right''),
      (''actions'', JArr [JObj [(''icon'', JStr ''mdi-close''), (''color'', JStr ''white'')]])]"

definition quasar :: js where
  "quasar = JObj
     [(''iconSet'', JStr ''mdi-v5''),
      (''plugins'', JArr [JStr ''Notify'', JStr ''Dialog'']),
      (''config'', JObj [(''dark'', JStr ''auto''), (''notify'', notify)])]"

definition nuxt_config :: js where
  "nuxt_config = JObj
     [(''telemetry'', JBool False),
      (''devtools'', JObj [(''enabled'', JBool True)]),
      (''ssr'', JBool False),
      (''pages'', JBool True),
      (''components'', JBool True),
      (''srcDir'', JStr ''src-nuxt/''),
      (''css'', JArr [JStr ''~/assets/sass/global.sass'']),
      (''modules'', JArr [JStr ''nuxt-quasar-ui'']),
      (''quasar'', quasar)]"

text \<open>
  The module's default export is the framework's \<^verbatim>\<open>defineNuxtConfig\<close> applied to
  the literal. That function is not part of the repository; it is a parameter here.
\<close>

definition export_default :: "(js \<Rightarrow> 'a) \<Rightarrow> 'a" where
  "export_default defineNuxtConfig = defineNuxtConfig nuxt_config"

section \<open>Properties of the literal\<close>

lemma keys_nuxt_config:
  "keys nuxt_config =
     [''telemetry'', ''devtools'', ''ssr'', ''pages'', ''components'', ''srcDir'', ''css'',
      ''modules'', ''quasar'']"
  by (simp add: nuxt_config_def)

lemma distinct_keys_nuxt_config: "distinct (keys nuxt_config)"
  by (simp add: nuxt_config_def)

lemma get_quasar: "get nuxt_config ''quasar'' = Some quasar"
  by (simp add: nuxt_config_def)

lemma get_path_notify: "get_path nuxt_config [''quasar'', ''config'', ''notify''] = Some notify"
  by (simp add: nuxt_config_def quasar_def)

lemma keys_notify: "keys notify = [''timeout'', ''position'', ''actions'']"
  by (simp add: notify_def)

text \<open>
  C10. The configuration object of the source declares \<^verbatim>\<open>ssr: false\<close> (so not
  \<^verbatim>\<open>true\<close>, the server-and-client setting), and under
  \<^verbatim>\<open>quasar.config.notify\<close> it declares the position \<^verbatim>\<open>'top-right'\<close> and an
  \<^verbatim>\<open>actions\<close> array of exactly one element, the object with \<^verbatim>\<open>icon: 'mdi-close'\<close>
  and \<^verbatim>\<open>color: 'white'\<close> and no other entry. These literal values are not the
  \<^verbatim>\<open>"topRight"\<close> and \<^verbatim>\<open>"close"\<close> of the specification's scenario.
\<close>

theorem nuxt_config_literals:
  "get nuxt_config ''ssr'' = Some (JBool False)
   \<and> get nuxt_config ''ssr'' \<noteq> Some (JBool True)
   \<and> get_path nuxt_config [''quasar'', ''config'', ''notify'', ''position'']
       = Some (JStr ''top-right'')
   \<and> get_path nuxt_config [''quasar'', ''config'', ''notify'', ''actions'']
       = Some (JArr [JObj [(''icon'', JStr ''mdi-close''), (''color'', JStr ''white'')]])
   \<and> get_path nuxt_config [''quasar'', ''config'', ''notify'', ''position'']
       \<noteq> Some (JStr ''topRight'')
   \<and> get_path nuxt_config [''quasar'', ''config'', ''notify'', ''actions'']
       \<noteq> Some (JArr [JObj [(''icon'', JStr ''close''), (''color'', JStr ''white'')]])"
  by (simp add: nuxt_config_def quasar_def notify_def)

end
